theory Spec2Isabelle
  imports Main "HOL-Library.Word"
begin

section \<open>The glB header printer: \<open>3-first-mesh/print_glb_header.py\<close>\<close>

text \<open>
  The script reads a glB file named on the command line, unpacks the 20 bytes of the
  glB header and of the first chunk header, checks three of the five fields and prints
  the JSON chunk re-serialised with an indentation of 2.

  What the script takes from outside is passed in explicitly:
  \<^item> \<open>sys.argv\<close> is a list of strings;
  \<^item> the file system is a function from a path to what \<open>open(path, "rb")\<close> followed by
    \<open>read()\<close> yields: the bytes of the file, or the exception raised;
  \<^item> Python's \<open>json\<close> module is a record of its two functions \<open>loads\<close> and \<open>dumps\<close>
    over a type \<open>'j\<close> of parsed documents. Its code is not part of the repository.
\<close>

subsection \<open>Values, exceptions and the observable behaviour of a run\<close>

type_synonym byte = "8 word"

datatype exn =
  IndexError | OSError | StructError | JSONDecodeError | UnicodeDecodeError | RecursionError

text \<open>
  How a run ends: it reaches the end of the script, it calls \<open>sys.exit(n)\<close>, or an
  exception nobody catches unwinds it.
\<close>

datatype ending = Finished | SysExit int | Uncaught exn

text \<open>
  The interpreter's exit status: 0 at the end of the script, the argument of
  \<open>sys.exit\<close>, and 1 after the traceback of an uncaught exception.
\<close>

fun exit_code :: "ending \<Rightarrow> int" where
  "exit_code Finished = 0"
| "exit_code (SysExit n) = n"
| "exit_code (Uncaught e) = 1"

text \<open>
  The effects of a run: what each \<open>print\<close> call wrote to standard output, one entry per
  call (Python ends each with a newline), and the paths handed to \<open>open\<close>.
\<close>

record process =
  stdout :: "string list"
  opened :: "string list"

definition print :: "string \<Rightarrow> process \<Rightarrow> process" where
  "print s p = p\<lparr>stdout := stdout p @ [s]\<rparr>"

text \<open>
  The two functions of the \<open>json\<close> module that the script calls: \<open>json.loads(bytes)\<close> and
  \<open>json.dumps(obj, indent=n)\<close>. Either returns or raises.
\<close>

record 'j json_module =
  loads :: "byte list \<Rightarrow> exn + 'j"
  dumps :: "'j \<Rightarrow> nat \<Rightarrow> exn + string"

subsection \<open>Slices and \<open>struct.unpack\<close>\<close>

text \<open>
  \<open>xs[a:b]\<close> for non-negative \<open>a\<close> and \<open>b\<close>: the elements at the indices from \<open>a\<close> up to
  but excluding \<open>b\<close> that exist. A slice never raises; it is shorter than \<open>b - a\<close> when
  the list ends early.
\<close>

definition py_slice :: "'a list \<Rightarrow> nat \<Rightarrow> nat \<Rightarrow> 'a list" where
  "py_slice xs a b = take (b - a) (drop a xs)"

text \<open>An unsigned integer in little-endian byte order, as the format \<open><I\<close> reads it.\<close>

fun le_uint :: "byte list \<Rightarrow> nat" where
  "le_uint [] = 0"
| "le_uint (b # bs) = unat b + 256 * le_uint bs"

text \<open>
  \<open>struct.unpack("<IIIII", buf)\<close>: raises \<open>struct.error\<close> unless the buffer has exactly 20
  bytes, and returns the tuple of the five fields otherwise.
\<close>

definition unpack_IIIII :: "byte list \<Rightarrow> exn + nat list" where
  "unpack_IIIII buf =
     (if length buf \<noteq> 20 then Inl StructError
      else Inr [le_uint (py_slice buf 0 4), le_uint (py_slice buf 4 8),
                le_uint (py_slice buf 8 12), le_uint (py_slice buf 12 16),
                le_uint (py_slice buf 16 20)])"

text \<open>
  The five header fields by the names the script's comment gives them, each the
  little-endian value of its four bytes of the file: \<open>magic\<close> at offset 0, \<open>version\<close>
  at 4, the length of the whole file at 8, \<open>chunkLength\<close> at 12 and \<open>chunkType\<close> at 16.
\<close>

definition magic :: "byte list \<Rightarrow> nat" where
  "magic content = le_uint (py_slice content 0 4)"

definition version :: "byte list \<Rightarrow> nat" where
  "version content = le_uint (py_slice content 4 8)"

definition totalLength :: "byte list \<Rightarrow> nat" where
  "totalLength content = le_uint (py_slice content 8 12)"

definition chunkLength :: "byte list \<Rightarrow> nat" where
  "chunkLength content = le_uint (py_slice content 12 16)"

definition chunkType :: "byte list \<Rightarrow> nat" where
  "chunkType content = le_uint (py_slice content 16 20)"

subsection \<open>The script\<close>

text \<open>The body of the \<open>with\<close> block, from \<open>struct.unpack\<close> on, given what \<open>f.read()\<close> returned.\<close>

definition read_glb :: "'j json_module \<Rightarrow> byte list \<Rightarrow> process \<Rightarrow> ending \<times> process" where
  "read_glb json content p =
     (case unpack_IIIII (py_slice content 0 20) of
        Inl e \<Rightarrow> (Uncaught e, p)
      | Inr header \<Rightarrow>
          if header ! 0 \<noteq> 0x46546C67 then
            (SysExit 1, print ''The provided file does not appear to be a glB file'' p)
          else if header ! 1 \<noteq> 2 then
            (SysExit 1, print ''The provided file is not glTF version 2'' p)
          else if header ! 4 \<noteq> 0x4E4F534A then
            (SysExit 1,
             print ''Invalid glB: The first chunk of the glB file is not a JSON chunk!'' p)
          else
            (case loads json (py_slice content 20 (20 + header ! 3)) of
               Inl e \<Rightarrow> (Uncaught e, p)
             | Inr jsonChunk \<Rightarrow>
                 (case dumps json jsonChunk 2 of
                    Inl e \<Rightarrow> (Uncaught e, p)
                  | Inr text \<Rightarrow> (Finished, print text p))))"

text \<open>
  The whole script. \<open>sys.argv[1]\<close> raises \<open>IndexError\<close> on a list without a second
  element; after the test \<open>len(sys.argv) == 1\<close> that is the empty list only.
\<close>

definition main ::
  "'j json_module \<Rightarrow> (string \<Rightarrow> exn + byte list) \<Rightarrow> string list \<Rightarrow> ending \<times> process"
where
  "main json fs argv =
     (let p = \<lparr>stdout = [], opened = []\<rparr> in
      if length argv = 1 then
        (SysExit 1, print ''Usage: ./print_glb_header.py <file.glb>'' p)
      else if length argv < 2 then (Uncaught IndexError, p)
      else
        let glbFile = argv ! 1;
            p = p\<lparr>opened := opened p @ [glbFile]\<rparr>
        in case fs glbFile of
             Inl e \<Rightarrow> (Uncaught e, p)
           | Inr content \<Rightarrow> read_glb json content p)"

subsection \<open>A small \<open>json\<close> module and a file system to run the script on\<close>

text \<open>
  A stand-in for Python's \<open>json\<close> module: a table of what CPython 3.11 does, called from
  the top level of a script under the default recursion limit of 1000, on five chunks.
  \<^item> \<open>{}\<close> and \<open>[]\<close> parse to the empty object and the empty array, printed as \<open>{}\<close> and
    \<open>[]\<close>.
  \<^item> \<open>NaN\<close>, which is not JSON, parses to the float of that name and is printed as \<open>NaN\<close>.
  \<^item> The four bytes \<open>7B 00 7D 00\<close>, which are \<open>{}\<close> in UTF-16, parse to the empty object:
    \<open>json.loads\<close> finds the encoding of its bytes from the zero bytes among the first.
  \<^item> \<open>deep_chunk\<close>, the number \<open>1.5\<close> inside 995 arrays, parses; printing the result with
    an indentation raises \<open>RecursionError\<close>.

  Every other input is rejected. The theorems below hold for every \<open>json\<close> module; this
  one runs them on concrete files.
\<close>

datatype sample_doc = EmptyObject | EmptyArray | NotANumber | DeepArray

definition deep_chunk :: "byte list" where
  "deep_chunk = replicate 995 0x5B @ [0x31, 0x2E, 0x35] @ replicate 995 0x5D"

definition sample_json :: "sample_doc json_module" where
  "sample_json =
     \<lparr>loads = (\<lambda>bs. if bs = [0x7B, 0x7D] then Inr EmptyObject
                     else if bs = [0x5B, 0x5D] then Inr EmptyArray
                     else if bs = [0x4E, 0x61, 0x4E] then Inr NotANumber
                     else if bs = [0x7B, 0, 0x7D, 0] then Inr EmptyObject
                     else if bs = deep_chunk then Inr DeepArray
                     else Inl JSONDecodeError),
      dumps = (\<lambda>j indent. case j of
                   EmptyObject \<Rightarrow> Inr ''{}''
                 | EmptyArray \<Rightarrow> Inr ''[]''
                 | NotANumber \<Rightarrow> Inr ''NaN''
                 | DeepArray \<Rightarrow> Inl RecursionError)\<rparr>"

text \<open>A file system with one file, \<open>a.glb\<close>, of the given content.\<close>

definition one_file :: "byte list \<Rightarrow> string \<Rightarrow> exn + byte list" where
  "one_file content path = (if path = ''a.glb'' then Inr content else Inl OSError)"

text \<open>
  The 20 header bytes of a glB file: magic \<open>glTF\<close>, version 2, the four bytes of the
  file length, the four bytes of the chunk length, and the chunk type \<open>JSON\<close>.
\<close>

definition glb_header :: "byte list \<Rightarrow> byte list \<Rightarrow> byte list" where
  "glb_header len clen =
     [0x67, 0x6C, 0x54, 0x46, 2, 0, 0, 0] @ len @ clen @ [0x4A, 0x53, 0x4F, 0x4E]"

section \<open>Slices and the header fields\<close>

lemma py_slice_take:
  "b \<le> k \<Longrightarrow> py_slice (take k xs) a b = py_slice xs a b"
  by (simp add: py_slice_def drop_take min_def)

lemma py_slice_take_20:
  "b \<le> 20 \<Longrightarrow> py_slice (py_slice content 0 20) a b = py_slice content a b"
  by (simp add: py_slice_def drop_take min_def)

text \<open>Two lists of one length have the same slice when they agree at its indices.\<close>

lemma py_slice_cong:
  assumes "length ys = length xs"
    and "\<And>i. a \<le> i \<Longrightarrow> i < b \<Longrightarrow> i < length xs \<Longrightarrow> ys ! i = xs ! i"
  shows "py_slice ys a b = py_slice xs a b"
proof (rule nth_equalityI)
  show "length (py_slice ys a b) = length (py_slice xs a b)"
    using assms(1) by (simp add: py_slice_def)
next
  fix i
  assume "i < length (py_slice ys a b)"
  then have "i < b - a" and "a + i < length xs"
    using assms(1) by (auto simp: py_slice_def)
  then show "py_slice ys a b ! i = py_slice xs a b ! i"
    using assms by (simp add: py_slice_def)
qed


lemma unpack_short:
  "length content < 20 \<Longrightarrow> unpack_IIIII (py_slice content 0 20) = Inl StructError"
  by (simp add: unpack_IIIII_def py_slice_def)

lemma unpack_header:
  "20 \<le> length content \<Longrightarrow>
   unpack_IIIII (py_slice content 0 20) =
     Inr [magic content, version content, totalLength content, chunkLength content,
          chunkType content]"
  by (simp add: unpack_IIIII_def py_slice_take_20 magic_def version_def totalLength_def
      chunkLength_def chunkType_def) (simp add: py_slice_def)

section \<open>The script, path by path\<close>

text \<open>With a path on the command line the script opens it and runs the \<open>with\<close> block.\<close>

lemma main_two_args:
  "main json fs (prog # path # rest) =
     (case fs path of
        Inl e \<Rightarrow> (Uncaught e, \<lparr>stdout = [], opened = [path]\<rparr>)
      | Inr content \<Rightarrow> read_glb json content \<lparr>stdout = [], opened = [path]\<rparr>)"
  by (simp add: main_def Let_def split: sum.split)

text \<open>On 20 bytes or more the tuple is the five fields, and the checks read three of them.\<close>

lemma read_glb_header:
  "20 \<le> length content \<Longrightarrow>
   read_glb json content p =
     (if magic content \<noteq> 0x46546C67 then
        (SysExit 1, print ''The provided file does not appear to be a glB file'' p)
      else if version content \<noteq> 2 then
        (SysExit 1, print ''The provided file is not glTF version 2'' p)
      else if chunkType content \<noteq> 0x4E4F534A then
        (SysExit 1,
         print ''Invalid glB: The first chunk of the glB file is not a JSON chunk!'' p)
      else
        (case loads json (py_slice content 20 (20 + chunkLength content)) of
           Inl e \<Rightarrow> (Uncaught e, p)
         | Inr jsonChunk \<Rightarrow>
             (case dumps json jsonChunk 2 of
                Inl e \<Rightarrow> (Uncaught e, p)
              | Inr text \<Rightarrow> (Finished, print text p))))"
  by (simp add: read_glb_def unpack_header)

lemma read_glb_short:
  "length content < 20 \<Longrightarrow> read_glb json content p = (Uncaught StructError, p)"
  by (simp add: read_glb_def unpack_short)

text \<open>
  Two files of 20 bytes or more are treated alike when they agree on \<open>magic\<close>, \<open>version\<close>
  and \<open>chunkType\<close> and on the bytes of the JSON chunk.
\<close>

lemma read_glb_same:
  assumes "20 \<le> length c" and "20 \<le> length c'"
    and "magic c' = magic c" and "version c' = version c"
    and "chunkType c' = chunkType c"
    and "py_slice c' 20 (20 + chunkLength c') = py_slice c 20 (20 + chunkLength c)"
  shows "read_glb json c' p = read_glb json c p"
  using assms by (simp add: read_glb_header)

lemma main_same:
  assumes "read_glb json c' \<lparr>stdout = [], opened = [path]\<rparr> =
           read_glb json c \<lparr>stdout = [], opened = [path]\<rparr>"
  shows "main json (fs(path := Inr c')) argv = main json (fs(path := Inr c)) argv"
  using assms by (simp add: main_def Let_def split: sum.split)

text \<open>The chunk of 1993 bytes differs from every list of another length.\<close>

lemma length_deep_chunk: "length deep_chunk = 1993"
  by (simp add: deep_chunk_def)

lemma deep_chunk_neq:
  "length bs \<noteq> 1993 \<Longrightarrow> (bs = deep_chunk) = False"
  "length bs \<noteq> 1993 \<Longrightarrow> (deep_chunk = bs) = False"
  using length_deep_chunk by auto

section \<open>Properties\<close>

text \<open>
  C1, as the script has it. A file of at least 20 bytes whose header has the magic number
  \<open>0x46546C67\<close>, the version 2 and the chunk type \<open>0x4E4F534A\<close>, whose bytes from 20 up to
  \<open>20 + chunkLength\<close> \<open>json.loads\<close> parses to a document \<open>j\<close>, and for which
  \<open>json.dumps(j, indent=2)\<close> returns a text: the script prints that text and nothing
  else, and ends with exit status 0.
\<close>

theorem C1_well_formed_prints_json:
  assumes "fs path = Inr content" and "20 \<le> length content"
    and "magic content = 0x46546C67" and "version content = 2"
    and "chunkType content = 0x4E4F534A"
    and "loads json (py_slice content 20 (20 + chunkLength content)) = Inr j"
    and "dumps json j 2 = Inr text"
  shows "main json fs (prog # path # rest) =
           (Finished, \<lparr>stdout = [text], opened = [path]\<rparr>)
         \<and> exit_code (fst (main json fs (prog # path # rest))) = 0"
  using assms by (simp add: main_two_args read_glb_header print_def)

text \<open>A glB file of 22 bytes whose JSON chunk is \<open>{}\<close>.\<close>

theorem C1_witness:
  "main sample_json (one_file (glb_header [22, 0, 0, 0] [2, 0, 0, 0] @ [0x7B, 0x7D]))
     [''print_glb_header.py'', ''a.glb''] =
     (Finished, \<lparr>stdout = [''{}''], opened = [''a.glb'']\<rparr>)"
  using C1_well_formed_prints_json
    [of "one_file (glb_header [22, 0, 0, 0] [2, 0, 0, 0] @ [0x7B, 0x7D])" "''a.glb''"
        "glb_header [22, 0, 0, 0] [2, 0, 0, 0] @ [0x7B, 0x7D]" sample_json EmptyObject
        "''{}''" "''print_glb_header.py''" "[]"]
  by (simp add: one_file_def glb_header_def magic_def version_def chunkType_def
      chunkLength_def py_slice_def sample_json_def)

text \<open>
  C1 as the claim words it, without the condition on \<open>json.dumps\<close>, fails. The file is a
  glB header followed by \<open>deep_chunk\<close>: its three fields are right and \<open>json.loads\<close>
  returns on its chunk, yet the run ends with the \<open>RecursionError\<close> of \<open>json.dumps\<close>
  uncaught, exit status 1, and nothing printed.
\<close>

theorem C1_counterexample:
  "20 \<le> length (glb_header [0xDD, 7, 0, 0] [0xC9, 7, 0, 0] @ deep_chunk)
   \<and> magic (glb_header [0xDD, 7, 0, 0] [0xC9, 7, 0, 0] @ deep_chunk) = 0x46546C67
   \<and> version (glb_header [0xDD, 7, 0, 0] [0xC9, 7, 0, 0] @ deep_chunk) = 2
   \<and> chunkType (glb_header [0xDD, 7, 0, 0] [0xC9, 7, 0, 0] @ deep_chunk) = 0x4E4F534A
   \<and> loads sample_json
        (py_slice (glb_header [0xDD, 7, 0, 0] [0xC9, 7, 0, 0] @ deep_chunk) 20
           (20 + chunkLength (glb_header [0xDD, 7, 0, 0] [0xC9, 7, 0, 0] @ deep_chunk))) =
       Inr DeepArray
   \<and> main sample_json (one_file (glb_header [0xDD, 7, 0, 0] [0xC9, 7, 0, 0] @ deep_chunk))
        [''print_glb_header.py'', ''a.glb''] =
       (Uncaught RecursionError, \<lparr>stdout = [], opened = [''a.glb'']\<rparr>)
   \<and> exit_code
        (fst (main sample_json
                (one_file (glb_header [0xDD, 7, 0, 0] [0xC9, 7, 0, 0] @ deep_chunk))
                [''print_glb_header.py'', ''a.glb''])) = 1"
  by (simp add: main_two_args read_glb_header one_file_def glb_header_def magic_def
      version_def chunkType_def chunkLength_def py_slice_def sample_json_def
      length_deep_chunk deep_chunk_neq)

text \<open>
  C2. On a file of at least 20 bytes the checks run in the order magic, version, chunk
  type. A wrong magic number gives the first message whatever the other fields are; a
  right magic number with a version other than 2 gives the second; a right magic number
  and version with a chunk type other than \<open>0x4E4F534A\<close> gives the third. In each case
  that message is all the script prints, the run ends with \<open>sys.exit(1)\<close>, and the three
  messages differ from one another.
\<close>

theorem C2_validation_order:
  assumes "fs path = Inr content" and "20 \<le> length content"
  shows
    "(let run = main json fs (prog # path # rest) in
       (magic content \<noteq> 0x46546C67 \<longrightarrow>
          run = (SysExit 1,
                 \<lparr>stdout = [''The provided file does not appear to be a glB file''],
                  opened = [path]\<rparr>)
          \<and> exit_code (fst run) = 1)
     \<and> (magic content = 0x46546C67 \<and> version content \<noteq> 2 \<longrightarrow>
          run = (SysExit 1,
                 \<lparr>stdout = [''The provided file is not glTF version 2''],
                  opened = [path]\<rparr>)
          \<and> exit_code (fst run) = 1)
     \<and> (magic content = 0x46546C67 \<and> version content = 2
          \<and> chunkType content \<noteq> 0x4E4F534A \<longrightarrow>
          run = (SysExit 1,
                 \<lparr>stdout =
                    [''Invalid glB: The first chunk of the glB file is not a JSON chunk!''],
                  opened = [path]\<rparr>)
          \<and> exit_code (fst run) = 1))
     \<and> distinct [''The provided file does not appear to be a glB file'',
                  ''The provided file is not glTF version 2'',
                  ''Invalid glB: The first chunk of the glB file is not a JSON chunk!'']"
  using assms by (simp add: main_two_args read_glb_header print_def Let_def)

text \<open>
  Three files of 20 bytes: all zero; a glB header of version 1; a glB header of version 2
  whose first chunk has the type \<open>BIN\<close>.
\<close>

theorem C2_witness:
  "main sample_json 
     (one_file [0, 0, 0, 0, 0, 0, 0, 0, 0, 0, 0, 0, 0, 0, 0, 0, 0, 0, 0, 0])
     [''print_glb_header.py'', ''a.glb''] =
     (SysExit 1,
      \<lparr>stdout = [''The provided file does not appear to be a glB file''],
       opened = [''a.glb'']\<rparr>)
   \<and> main sample_json
       (one_file [0x67, 0x6C, 0x54, 0x46, 1, 0, 0, 0, 20, 0, 0, 0, 0, 0, 0, 0, 0x4A, 0x53, 0x4F, 0x4E])
       [''print_glb_header.py'', ''a.glb''] =
     (SysExit 1,
      \<lparr>stdout = [''The provided file is not glTF version 2''], opened = [''a.glb'']\<rparr>)
   \<and> main sample_json
       (one_file [0x67, 0x6C, 0x54, 0x46, 2, 0, 0, 0, 20, 0, 0, 0, 0, 0, 0, 0, 0x42, 0x49, 0x4E, 0])
       [''print_glb_header.py'', ''a.glb''] =
     (SysExit 1,
      \<lparr>stdout = [''Invalid glB: The first chunk of the glB file is not a JSON chunk!''],
       opened = [''a.glb'']\<rparr>)"
  using
    C2_validation_order
      [of "one_file [0, 0, 0, 0, 0, 0, 0, 0, 0, 0, 0, 0, 0, 0, 0, 0, 0, 0, 0, 0]" "''a.glb''"
          
          "[0, 0, 0, 0, 0, 0, 0, 0, 0, 0, 0, 0, 0, 0, 0, 0, 0, 0, 0, 0]" sample_json "''print_glb_header.py''" "[]"]
    C2_validation_order
      [of "one_file
            [0x67, 0x6C, 0x54, 0x46, 1, 0, 0, 0, 20, 0, 0, 0, 0, 0, 0, 0, 0x4A, 0x53, 0x4F, 0x4E]" "''a.glb''"
          
          "[0x67, 0x6C, 0x54, 0x46, 1, 0, 0, 0, 20, 0, 0, 0, 0, 0, 0, 0, 0x4A, 0x53, 0x4F, 0x4E]" sample_json "''print_glb_header.py''" "[]"]
    C2_validation_order
      [of "one_file
            [0x67, 0x6C, 0x54, 0x46, 2, 0, 0, 0, 20, 0, 0, 0, 0, 0, 0, 0, 0x42, 0x49, 0x4E, 0]" "''a.glb''"
          
          "[0x67, 0x6C, 0x54, 0x46, 2, 0, 0, 0, 20, 0, 0, 0, 0, 0, 0, 0, 0x42, 0x49, 0x4E, 0]" sample_json "''print_glb_header.py''" "[]"]
  by (simp add: one_file_def magic_def version_def chunkType_def py_slice_def Let_def)

text \<open>
  C3. On a file shorter than 20 bytes \<open>struct.unpack\<close> raises: the run ends with the
  uncaught \<open>struct.error\<close>, having printed nothing, whatever the bytes of the file are. No
  field is checked and \<open>json\<close> is not called.
\<close>

theorem C3_short_file_fails:
  assumes "fs path = Inr content" and "length content < 20"
  shows "main json fs (prog # path # rest) =
           (Uncaught StructError, \<lparr>stdout = [], opened = [path]\<rparr>)"
  using assms by (simp add: main_two_args read_glb_short)

text \<open>The first 8 bytes of a glB file and no more.\<close>

theorem C3_witness:
  "main sample_json (one_file [0x67, 0x6C, 0x54, 0x46, 2, 0, 0, 0])
     [''print_glb_header.py'', ''a.glb''] =
     (Uncaught StructError, \<lparr>stdout = [], opened = [''a.glb'']\<rparr>)"
  using C3_short_file_fails
    [of "one_file [0x67, 0x6C, 0x54, 0x46, 2, 0, 0, 0]" "''a.glb''"
        "[0x67, 0x6C, 0x54, 0x46, 2, 0, 0, 0]" sample_json "''print_glb_header.py''" "[]"]
  by (simp add: one_file_def)

text \<open>
  C4, as the script has it. On a file that passes the three checks and on whose bytes
  from 20 up to \<open>20 + chunkLength\<close> \<open>json.loads\<close> raises \<open>e\<close>, the run ends with \<open>e\<close>
  uncaught: it has printed nothing and it does not end with \<open>sys.exit(1)\<close>, the way of the
  three checks.
\<close>

theorem C4_bad_json_uncaught:
  assumes "fs path = Inr content" and "20 \<le> length content"
    and "magic content = 0x46546C67" and "version content = 2"
    and "chunkType content = 0x4E4F534A"
    and "loads json (py_slice content 20 (20 + chunkLength content)) = Inl e"
  shows "main json fs (prog # path # rest) =
           (Uncaught e, \<lparr>stdout = [], opened = [path]\<rparr>)
         \<and> fst (main json fs (prog # path # rest)) \<noteq> SysExit 1
         \<and> stdout (snd (main json fs (prog # path # rest))) = []"
  using assms by (simp add: main_two_args read_glb_header)

text \<open>A glB file whose JSON chunk is the two characters \<open>{x\<close>.\<close>

theorem C4_witness:
  "main sample_json (one_file (glb_header [22, 0, 0, 0] [2, 0, 0, 0] @ [0x7B, 0x78]))
     [''print_glb_header.py'', ''a.glb''] =
     (Uncaught JSONDecodeError, \<lparr>stdout = [], opened = [''a.glb'']\<rparr>)"
  using C4_bad_json_uncaught
    [of "one_file (glb_header [22, 0, 0, 0] [2, 0, 0, 0] @ [0x7B, 0x78])" "''a.glb''"
        "glb_header [22, 0, 0, 0] [2, 0, 0, 0] @ [0x7B, 0x78]" sample_json JSONDecodeError
        "''print_glb_header.py''" "[]"]
  by (simp add: one_file_def glb_header_def magic_def version_def chunkType_def
      chunkLength_def py_slice_def sample_json_def deep_chunk_neq)

text \<open>
  C4 as the claim words it, for every chunk that is not JSON in UTF-8, fails: \<open>json.loads\<close>
  takes more than that. Two files pass the three checks, one with the chunk \<open>NaN\<close> and
  one with the chunk \<open>{}\<close> in UTF-16, and on both the run prints and ends with exit
  status 0.
\<close>

theorem C4_counterexample:
  "main sample_json (one_file (glb_header [23, 0, 0, 0] [3, 0, 0, 0] @ [0x4E, 0x61, 0x4E]))
     [''print_glb_header.py'', ''a.glb''] =
     (Finished, \<lparr>stdout = [''NaN''], opened = [''a.glb'']\<rparr>)
   \<and> main sample_json
       (one_file (glb_header [24, 0, 0, 0] [4, 0, 0, 0] @ [0x7B, 0, 0x7D, 0]))
       [''print_glb_header.py'', ''a.glb''] =
     (Finished, \<lparr>stdout = [''{}''], opened = [''a.glb'']\<rparr>)
   \<and> exit_code Finished = 0"
  by (simp add: main_two_args read_glb_header one_file_def glb_header_def magic_def
      version_def chunkType_def chunkLength_def py_slice_def sample_json_def print_def)

text \<open>
  C5. Invoked with no positional argument (\<open>sys.argv\<close> holds the program name only), the
  script prints the usage message and exits with status 1, and it has opened no file:
  this holds whatever the file system and the \<open>json\<close> module are.
\<close>

theorem C5_no_argument_usage:
  "main json fs [prog] =
     (SysExit 1, \<lparr>stdout = [''Usage: ./print_glb_header.py <file.glb>''], opened = []\<rparr>)
   \<and> exit_code (fst (main json fs [prog])) = 1"
  by (simp add: main_def print_def)

text \<open>
  C7. The length field of the header is not used. Two files of one length, at least 20
  bytes, that agree at every index other than 8, 9, 10 and 11 give the same run (the
  same ending, the same output), whatever the command line is. So the field is compared
  with nothing, the size of the file included.
\<close>

theorem C7_totalLength_ignored:
  assumes "20 \<le> length c" and "length c' = length c"
    and "\<forall>i<length c. i \<notin> {8, 9, 10, 11} \<longrightarrow> c' ! i = c ! i"
  shows "main json (fs(path := Inr c')) argv = main json (fs(path := Inr c)) argv"
proof (rule main_same, rule read_glb_same)
  show "20 \<le> length c" and "20 \<le> length c'"
    using assms by simp_all
  have same: "py_slice c' a b = py_slice c a b" if "b \<le> 8 \<or> 12 \<le> a" for a b
    using assms(2,3) that by (intro py_slice_cong) auto
  show "magic c' = magic c" and "version c' = version c" and "chunkType c' = chunkType c"
    by (simp_all add: magic_def version_def chunkType_def same)
  have "chunkLength c' = chunkLength c"
    by (simp add: chunkLength_def same)
  then show "py_slice c' 20 (20 + chunkLength c') = py_slice c 20 (20 + chunkLength c)"
    by (simp add: same)
qed

text \<open>
  The same 22-byte file with the length field 22, its size, and with the length field
  \<open>0x7FFFFFFF\<close>.
\<close>

theorem C7_witness:
  "main sample_json
     ((one_file [])
        (''a.glb'' := Inr (glb_header [0xFF, 0xFF, 0xFF, 0x7F] [2, 0, 0, 0] @ [0x7B, 0x7D])))
     [''print_glb_header.py'', ''a.glb''] =
   main sample_json
     ((one_file [])(''a.glb'' := Inr (glb_header [22, 0, 0, 0] [2, 0, 0, 0] @ [0x7B, 0x7D])))
     [''print_glb_header.py'', ''a.glb'']"
  using C7_totalLength_ignored
    [of "glb_header [22, 0, 0, 0] [2, 0, 0, 0] @ [0x7B, 0x7D]"
        "glb_header [0xFF, 0xFF, 0xFF, 0x7F] [2, 0, 0, 0] @ [0x7B, 0x7D]"
        sample_json "one_file []" "''a.glb''" "[''print_glb_header.py'', ''a.glb'']"]
  by (simp add: glb_header_def nth_Cons')

text \<open>
  C8. What follows the first chunk is not read. With \<open>n\<close> the chunk length in the header
  of a file \<open>c\<close>, a file \<open>c'\<close> that has the same first \<open>20 + n\<close> bytes gives the same run
  as \<open>c\<close>, whatever the command line is and whatever comes in \<open>c'\<close> from offset \<open>20 + n\<close>
  on. This holds for every such pair, so for those that pass the three checks.
\<close>

theorem C8_trailing_bytes_ignored:
  assumes "take (20 + chunkLength c) c' = take (20 + chunkLength c) c"
  shows "main json (fs(path := Inr c')) argv = main json (fs(path := Inr c)) argv"
proof (rule main_same)
  let ?k = "20 + chunkLength c"
  have same: "py_slice c' a b = py_slice c a b" if "b \<le> ?k" for a b
    using py_slice_take [OF that, of c' a] py_slice_take [OF that, of c a] assms by simp
  have len: "min ?k (length c') = min ?k (length c)"
    using arg_cong [OF assms, of length] by simp
  show "read_glb json c' \<lparr>stdout = [], opened = [path]\<rparr> =
        read_glb json c \<lparr>stdout = [], opened = [path]\<rparr>"
  proof (cases "20 \<le> length c")
    case True
    with len have "20 \<le> length c'"
      by (simp add: min_def split: if_splits)
    moreover have "chunkLength c' = chunkLength c"
      by (simp add: chunkLength_def same)
    ultimately show ?thesis
      using True
      by (intro read_glb_same) (simp_all add: magic_def version_def chunkType_def same)
  next
    case False
    with len have "length c' < 20"
      by (simp add: min_def split: if_splits)
    with False show ?thesis
      by (simp add: read_glb_short)
  qed
qed

text \<open>
  A glB file whose JSON chunk is \<open>{}\<close>, alone and followed by a \<open>BIN\<close> chunk of four
  bytes.
\<close>

theorem C8_witness:
  "main sample_json
     ((one_file [])(''a.glb'' :=
        Inr (glb_header [34, 0, 0, 0] [2, 0, 0, 0] @ [0x7B, 0x7D]
             @ [4, 0, 0, 0, 0x42, 0x49, 0x4E, 0, 1, 2, 3, 4])))
     [''print_glb_header.py'', ''a.glb''] =
   main sample_json
     ((one_file [])(''a.glb'' := Inr (glb_header [34, 0, 0, 0] [2, 0, 0, 0] @ [0x7B, 0x7D])))
     [''print_glb_header.py'', ''a.glb'']"
  using C8_trailing_bytes_ignored
    [of "glb_header [34, 0, 0, 0] [2, 0, 0, 0] @ [0x7B, 0x7D]"
        "glb_header [34, 0, 0, 0] [2, 0, 0, 0] @ [0x7B, 0x7D]
           @ [4, 0, 0, 0, 0x42, 0x49, 0x4E, 0, 1, 2, 3, 4]"
        sample_json "one_file []" "''a.glb''" "[''print_glb_header.py'', ''a.glb'']"]
  by (simp add: glb_header_def chunkLength_def py_slice_def)

text \<open>
  C9. With the program name first in \<open>sys.argv\<close>, the run ends with \<open>sys.exit(1)\<close> after
  printing the usage message exactly when no positional argument follows. With one
  argument or more the run is the run on the first argument alone: the others are not
  looked at.
\<close>

theorem C9_usage_only_without_arguments:
  "((fst (main json fs (prog # args)) = SysExit 1
     \<and> stdout (snd (main json fs (prog # args))) =
         [''Usage: ./print_glb_header.py <file.glb>''])
    \<longleftrightarrow> args = [])
   \<and> main json fs (prog # glbFile # rest) = main json fs [prog, glbFile]"
proof (intro conjI)
  show "main json fs (prog # glbFile # rest) = main json fs [prog, glbFile]"
    by (simp add: main_two_args)
  show "(fst (main json fs (prog # args)) = SysExit 1
         \<and> stdout (snd (main json fs (prog # args))) =
             [''Usage: ./print_glb_header.py <file.glb>''])
        \<longleftrightarrow> args = []"
  proof (cases args)
    case Nil
    then show ?thesis
      by (simp add: main_def print_def)
  next
    case (Cons a as)
    then show ?thesis
      by (simp add: main_two_args read_glb_def print_def split: sum.split)
  qed
qed



end
